theory Spec2Isabelle
  imports Complex_Main
begin

section \<open>Python values and errors\<close>

text \<open>
  The exceptions the modelled code can raise. Floats are modelled as reals: rounding,
  infinities and NaN are outside the model.
\<close>

datatype error =
    AttributeError
  | ZeroDivisionError
  | IndexError
  | KeyError string
  | AssertionError
  | TypeError
  | InvariantViolation

text \<open>Python's \<open>int(x)\<close> on a float truncates toward zero.\<close>

definition py_int :: "real \<Rightarrow> int" where
  "py_int r = (if 0 \<le> r then \<lfloor>r\<rfloor> else \<lceil>r\<rceil>)"

text \<open>
  Subscription \<open>xs[i]\<close> of a Python sequence: positions \<open>0\<close> to \<open>len - 1\<close> from the front,
  \<open>-1\<close> down to \<open>-len\<close> from the back, anything else is an \<open>IndexError\<close>.
\<close>

definition py_index :: "'a list \<Rightarrow> int \<Rightarrow> error + 'a" where
  "py_index xs i =
     (if 0 \<le> i \<and> i < int (length xs) then Inr (xs ! nat i)
      else if i < 0 \<and> - int (length xs) \<le> i then Inr (xs ! nat (int (length xs) + i))
      else Inl IndexError)"

section \<open>rocket.py: RocketCommands\<close>

record RocketCommands =
  F_left :: real
  F_right :: real
  dphi :: real

text \<open>A numpy array: its shape and its flat data; \<open>z.size\<close> is the product of the shape.\<close>

record ndarray =
  nd_shape :: "nat list"
  nd_data :: "real list"

definition nd_size :: "ndarray \<Rightarrow> nat" where
  "nd_size z = prod_list (nd_shape z)"

definition idx :: "(string \<times> nat) list" where
  "idx = [(''F_left'', 0), (''F_right'', 1), (''dphi'', 2)]"

definition get_n_commands :: nat where
  "get_n_commands = length idx"

definition as_ndarray :: "RocketCommands \<Rightarrow> ndarray" where
  "as_ndarray c = \<lparr>nd_shape = [3], nd_data = [F_left c, F_right c, dphi c]\<rparr>"

text \<open>
  \<open>from_array\<close>: the chained assertion \<open>n == z.size == z.shape[0]\<close> (the second comparison
  is evaluated only when the first holds), then the keyword arguments left to right:
  \<open>cls.idx["acc_left "]\<close>, \<open>z[...]\<close>, \<open>cls.idx["acc_right"]\<close>, \<open>z[...]\<close>, and at last the
  dataclass constructor, which has no fields \<open>acc_left\<close> and \<open>acc_right\<close>.
\<close>

definition from_array :: "ndarray \<Rightarrow> error + RocketCommands" where
  "from_array z =
     (if get_n_commands \<noteq> nd_size z then Inl AssertionError
      else case nd_shape z of
        [] \<Rightarrow> Inl IndexError
      | d # ds \<Rightarrow>
          if nd_size z \<noteq> d then Inl AssertionError
          else
            (case map_of idx ''acc_left '' of
               None \<Rightarrow> Inl (KeyError ''acc_left '')
             | Some i \<Rightarrow>
                 (case py_index (nd_data z) (int i) of
                    Inl er \<Rightarrow> Inl er
                  | Inr a \<Rightarrow>
                      (case map_of idx ''acc_right'' of
                         None \<Rightarrow> Inl (KeyError ''acc_right'')
                       | Some j \<Rightarrow>
                           (case py_index (nd_data z) (int j) of
                              Inl er \<Rightarrow> Inl er
                            | Inr b \<Rightarrow> Inl TypeError)))))"

section \<open>anytime_rrt_dubins.py: data\<close>

text \<open>\<open>SE2Transform\<close>: the position array \<open>p\<close> (two entries) and the heading \<open>theta\<close>.\<close>

record SE2Transform =
  p0 :: real
  p1 :: real
  theta :: real

text \<open>
  \<open>VehicleStateDyn\<close> with the fields that \<open>reached_goal\<close> passes to its constructor.
\<close>

record VehicleStateDyn =
  vs_x :: real
  vs_y :: real
  vs_theta :: real
  vs_vx :: real
  vs_delta :: real

text \<open>
  \<open>AnyNode\<close>: the parent is a reference to another node, kept here as that node's id.
\<close>

record AnyNode =
  pose :: SE2Transform
  node_id :: string
  node_path :: "SE2Transform list"
  cost :: real
  parent :: "string option"

text \<open>The object returned by \<open>find_best_path\<close>: the poses and the total length.\<close>

record Path =
  poses :: "SE2Transform list"
  path_length :: real

text \<open>
  The planner's mutable attributes: \<open>self.tree.tree\<close> (a dict, in insertion order),
  \<open>self.number_nodes\<close>, \<open>self.path\<close>, and the number of samples drawn so far from the
  sampler seeded at construction.
\<close>

record planner =
  p_tree :: "(string \<times> AnyNode) list"
  p_number_nodes :: nat
  p_path :: "Path option"
  p_draws :: nat

text \<open>
  The configuration and the collaborators that are not part of the planner class:
  the Dubins generator, the sampler (its \<open>k\<close>-th draw), the collision oracle, the goal
  predicate, and the base-class operations \<open>find_best_path\<close>, \<open>remove_driven_nodes\<close> and
  \<open>check_path_valid\<close>. \<open>init_cost\<close> is the cost of a freshly constructed node. The sampler
  is a function of the seed and of the number of draws made before.
\<close>

record env =
  max_iter :: int
  expand_iter :: int
  expand_dis :: real
  path_resolution :: real
  search_until_max_iter :: bool
  curvature :: real
  init_cost :: real
  dubins_path_planning ::
    "real \<Rightarrow> real \<Rightarrow> real \<Rightarrow> real \<Rightarrow> real \<Rightarrow> real \<Rightarrow> real \<Rightarrow> real
      \<Rightarrow> SE2Transform list \<times> string \<times> real list"
  seed :: int
  sample :: "int \<Rightarrow> nat \<Rightarrow> AnyNode"
  collision :: "AnyNode \<Rightarrow> bool"
  is_fulfilled :: "VehicleStateDyn \<Rightarrow> bool"
  find_best_path :: "(string \<times> AnyNode) list \<Rightarrow> AnyNode \<Rightarrow> Path"
  remove_driven_nodes :: "SE2Transform \<Rightarrow> planner \<Rightarrow> planner"
  check_path_valid :: "planner \<Rightarrow> bool"

section \<open>Goal test and goal search\<close>

definition reached_goal :: "env \<Rightarrow> AnyNode \<Rightarrow> bool" where
  "reached_goal e node =
     (let x0_p1 = \<lparr>vs_x = p0 (pose node), vs_y = p1 (pose node), vs_theta = theta (pose node),
                    vs_vx = 0, vs_delta = 0\<rparr>
      in if is_fulfilled e x0_p1 then True else False)"

text \<open>
  \<open>search_best_goal_node\<close>: collect the goal nodes in iteration order, take the minimum
  of their costs, return the first node with that cost. A loop that ends without a
  match returns \<open>None\<close>, as a Python function without \<open>return\<close> does.
\<close>

definition search_best_goal_node :: "env \<Rightarrow> (string \<times> AnyNode) list \<Rightarrow> AnyNode option" where
  "search_best_goal_node e t =
     (let final_goal_nodes = filter (reached_goal e) (map snd t)
      in if final_goal_nodes = [] then None
         else let min_cost = min_list (map cost final_goal_nodes)
              in find (\<lambda>node. cost node = min_cost) final_goal_nodes)"

section \<open>Node and tree operations\<close>

text \<open>
  Modelled from the spec: the class \<open>AnyNode\<close> (node.py) is missing. A node constructed
  from a pose and an id has no path and no parent; its cost is the constructor's
  default \<open>init_cost\<close>, the same for every node (the spec gives the parentless root
  the cost 0).
\<close>

definition AnyNode_init :: "env \<Rightarrow> SE2Transform \<Rightarrow> string \<Rightarrow> AnyNode" where
  "AnyNode_init e ps i =
     \<lparr>pose = ps, node_id = i, node_path = [], cost = init_cost e, parent = None\<rparr>"

text \<open>
  Modelled from the spec: the class \<open>Tree\<close> (node.py) is missing. \<open>set_child\<close> sets
  \<open>child.parent = parent\<close> and nothing else; \<open>insert\<close> adds the node under its id and
  fails when the id is present; \<open>remove\<close> clears all tree content.
\<close>

definition set_child :: "AnyNode option \<Rightarrow> AnyNode \<Rightarrow> AnyNode" where
  "set_child par child = child\<lparr>parent := map_option node_id par\<rparr>"

definition tree_insert ::
  "AnyNode \<Rightarrow> (string \<times> AnyNode) list \<Rightarrow> error + (string \<times> AnyNode) list" where
  "tree_insert node t =
     (if node_id node \<in> fst ` set t then Inl InvariantViolation
      else Inr (t @ [(node_id node, node)]))"

definition tree_remove :: "(string \<times> AnyNode) list \<Rightarrow> (string \<times> AnyNode) list" where
  "tree_remove t = []"

text \<open>
  Modelled from the spec: \<open>get_nearest_node_from_tree\<close> (base class \<open>AnytimeRRT\<close>) is
  missing. A linear scan for the node whose position is nearest to the query's, the
  first one on ties; the squared distance has the same minimiser. On an empty tree the
  scan has no node to return.
\<close>

definition dist2 :: "AnyNode \<Rightarrow> AnyNode \<Rightarrow> real" where
  "dist2 a b = (p0 (pose a) - p0 (pose b))\<^sup>2 + (p1 (pose a) - p1 (pose b))\<^sup>2"

definition get_nearest_node_from_tree ::
  "(string \<times> AnyNode) list \<Rightarrow> AnyNode \<Rightarrow> AnyNode option" where
  "get_nearest_node_from_tree t rnd =
     (case map snd t of
        [] \<Rightarrow> None
      | n # ns \<Rightarrow>
          Some (fold (\<lambda>m best. if dist2 m rnd < dist2 best rnd then m else best) ns n))"

text \<open>
  Modelled from the spec: \<open>check_collision\<close> (base class) is missing. A failed steer
  (\<open>None\<close>) is a discarded candidate; a node is judged by the collision oracle.
\<close>

definition check_collision :: "env \<Rightarrow> AnyNode option \<Rightarrow> bool" where
  "check_collision e new_node = (case new_node of None \<Rightarrow> True | Some n \<Rightarrow> collision e n)"

text \<open>
  Modelled from the spec: \<open>get_random_node\<close> (base class) is missing. The sampler is
  seeded once, at construction: the next node is the draw numbered by the draws made.
\<close>

definition get_random_node :: "env \<Rightarrow> planner \<Rightarrow> AnyNode \<times> planner" where
  "get_random_node e s = (sample e (seed e) (p_draws s), s\<lparr>p_draws := Suc (p_draws s)\<rparr>)"

text \<open>Python's \<open>str\<close> on a natural number.\<close>

definition digit :: "nat \<Rightarrow> char" where
  "digit d = ''0123456789'' ! d"

fun str :: "nat \<Rightarrow> string" where
  "str n = (if n < 10 then [digit n] else str (n div 10) @ [digit (n mod 10)])"

declare str.simps [simp del]

section \<open>Steering\<close>

text \<open>
  Lines 128 to 134 of \<open>constrained_steer\<close>: the new node at the last pose of the path,
  with the path stored, the summed absolute segment lengths added to the fresh node's
  cost, and \<open>from_node\<close> as parent.
\<close>

definition steer_node ::
  "env \<Rightarrow> AnyNode \<Rightarrow> SE2Transform list \<times> string \<times> real list \<Rightarrow> error + AnyNode option" where
  "steer_node e from_node r =
     (case r of (pth, mode, course_lengths) \<Rightarrow>
        (case py_index pth (- 1) of
           Inl er \<Rightarrow> Inl er
         | Inr l \<Rightarrow>
             let new_node = AnyNode_init e \<lparr>p0 = p0 l, p1 = p1 l, theta = theta l\<rparr> ''new''
             in Inr (Some (new_node
                  \<lparr>node_path := pth,
                   cost := cost new_node + sum_list (map abs course_lengths),
                   parent := Some (node_id from_node)\<rparr>))))"

text \<open>
  \<open>constrained_steer\<close>. \<open>from_node\<close> may be \<open>None\<close> (no nearest node), and \<open>from_node.pose\<close>
  raises then. The argument \<open>extend_length\<close> is not read.
\<close>

definition constrained_steer ::
  "env \<Rightarrow> AnyNode option \<Rightarrow> AnyNode \<Rightarrow> real \<Rightarrow> error + AnyNode option" where
  "constrained_steer e from_node to_node extend_length =
     (case from_node of
        None \<Rightarrow> Inl AttributeError
      | Some f \<Rightarrow>
          (case dubins_path_planning e (p0 (pose f)) (p1 (pose f)) (theta (pose f))
                  (p0 (pose to_node)) (p1 (pose to_node)) (theta (pose to_node))
                  (curvature e) (path_resolution e) of
             (pth, mode, course_lengths) \<Rightarrow>
               if length pth \<le> 1 then Inr None
               else if path_resolution e = 0 then Inl ZeroDivisionError
               else
                 let path_idx = py_int (3 / path_resolution e)
                 in if path_idx < int (length pth) - 1 then
                      (case py_index pth path_idx of
                         Inl er \<Rightarrow> Inl er
                       | Inr q \<Rightarrow>
                           steer_node e f
                             (dubins_path_planning e (p0 (pose f)) (p1 (pose f)) (theta (pose f))
                                (p0 q) (p1 q) (theta q) (curvature e) (path_resolution e)))
                    else steer_node e f (pth, mode, course_lengths)))"

section \<open>The planner's protocol\<close>

text \<open>
  Lines 35 to 39 (and 142 to 146): the collision-gated insertion. The flag tells whether
  a node was added.
\<close>

definition insert_if_free ::
  "env \<Rightarrow> planner \<Rightarrow> AnyNode option \<Rightarrow> AnyNode option \<Rightarrow> error + planner \<times> bool" where
  "insert_if_free e s nearest_node new_node =
     (if \<not> check_collision e new_node then
        (case new_node of
           None \<Rightarrow> Inl AttributeError
         | Some n \<Rightarrow>
             let k = p_number_nodes s + 1;
                 n1 = set_child nearest_node (n\<lparr>node_id := str k\<rparr>)
             in (case tree_insert n1 (p_tree s) of
                   Inl er \<Rightarrow> Inl er
                 | Inr t \<Rightarrow> Inr (s\<lparr>p_number_nodes := k, p_tree := t\<rparr>, True)))
      else Inr (s, False))"

text \<open>
  One iteration of the loop of \<open>planning\<close>. The result carries the new state, whether a
  node was added, whether the goal probe ran, and the path returned early, if any.
\<close>

definition planning_body ::
  "env \<Rightarrow> planner \<Rightarrow> error + planner \<times> bool \<times> bool \<times> SE2Transform list option" where
  "planning_body e s =
     (case get_random_node e s of (rnd_node, s1) \<Rightarrow>
        let nearest_node = get_nearest_node_from_tree (p_tree s1) rnd_node
        in (case constrained_steer e nearest_node rnd_node (expand_dis e) of
              Inl er \<Rightarrow> Inl er
            | Inr new_node \<Rightarrow>
                (case insert_if_free e s1 nearest_node new_node of
                   Inl er \<Rightarrow> Inl er
                 | Inr (s2, added) \<Rightarrow>
                     if \<not> search_until_max_iter e \<and> new_node \<noteq> None then
                       (case search_best_goal_node e (p_tree s2) of
                          Some last_node \<Rightarrow>
                            let pa = find_best_path e (p_tree s2) last_node
                            in Inr (s2\<lparr>p_path := Some pa\<rparr>, added, True, Some (poses pa))
                        | None \<Rightarrow> Inr (s2, added, True, None))
                     else Inr (s2, added, False, None))))"

text \<open>The loop: \<open>Some\<close> is the early return, \<open>None\<close> the exhausted range.\<close>

fun planning_loop ::
  "env \<Rightarrow> nat \<Rightarrow> planner \<Rightarrow> error + planner \<times> SE2Transform list option" where
  "planning_loop e 0 s = Inr (s, None)"
| "planning_loop e (Suc i) s =
     (case planning_body e s of
        Inl er \<Rightarrow> Inl er
      | Inr (s', added, probed, Some r) \<Rightarrow> Inr (s', Some r)
      | Inr (s', added, probed, None) \<Rightarrow> planning_loop e i s')"

definition planning :: "env \<Rightarrow> planner \<Rightarrow> error + planner \<times> SE2Transform list option" where
  "planning e s =
     (case planning_loop e (nat (max_iter e)) s of
        Inl er \<Rightarrow> Inl er
      | Inr (s', Some r) \<Rightarrow> Inr (s', Some r)
      | Inr (s', None) \<Rightarrow>
          (case search_best_goal_node e (p_tree s') of
             Some last_node \<Rightarrow>
               let pa = find_best_path e (p_tree s') last_node
               in Inr (s'\<lparr>p_path := Some pa\<rparr>, Some (poses pa))
           | None \<Rightarrow> Inr (s', None)))"

definition replanning ::
  "env \<Rightarrow> SE2Transform \<Rightarrow> planner \<Rightarrow> error + planner \<times> SE2Transform list option" where
  "replanning e current_pose s =
     (let s1 = remove_driven_nodes e current_pose s
      in if check_path_valid e s1 then
           (case p_path s1 of
              None \<Rightarrow> Inl AttributeError
            | Some pa \<Rightarrow> Inr (s1, Some (poses pa)))
         else
           let s2 = s1\<lparr>p_tree := tree_remove (p_tree s1)\<rparr>
           in (case search_best_goal_node e (p_tree s2) of
                 Some last_node \<Rightarrow>
                   let pa = find_best_path e (p_tree s2) last_node
                   in Inr (s2\<lparr>p_path := Some pa\<rparr>, Some (poses pa))
               | None \<Rightarrow> Inr (s2\<lparr>p_path := None\<rparr>, None)))"

definition expand_body :: "env \<Rightarrow> planner \<Rightarrow> error + planner" where
  "expand_body e s =
     (case get_random_node e s of (rnd_node, s1) \<Rightarrow>
        let nearest_node = get_nearest_node_from_tree (p_tree s1) rnd_node
        in (case constrained_steer e nearest_node rnd_node (expand_dis e) of
              Inl er \<Rightarrow> Inl er
            | Inr new_node \<Rightarrow>
                (case insert_if_free e s1 nearest_node new_node of
                   Inl er \<Rightarrow> Inl er
                 | Inr (s2, added) \<Rightarrow> Inr s2)))"

fun expand_loop :: "env \<Rightarrow> nat \<Rightarrow> planner \<Rightarrow> error + planner" where
  "expand_loop e 0 s = Inr s"
| "expand_loop e (Suc i) s =
     (case expand_body e s of Inl er \<Rightarrow> Inl er | Inr s' \<Rightarrow> expand_loop e i s')"

definition expand_tree :: "env \<Rightarrow> planner \<Rightarrow> error + planner" where
  "expand_tree e s = expand_loop e (nat (expand_iter e)) s"

section \<open>Conditions under which the calls return\<close>



section \<open>A concrete world\<close>

text \<open>
  A world on the x-axis, for the examples. Between two poses of heading 0 on one
  horizontal line, one step apart, the Dubins path is the straight segment: its two end
  samples and the segment lengths \<open>0, step_size, 0\<close>. Every other request is answered as a
  degenerate one: the start sample alone.
\<close>

definition line_dubins ::
  "real \<Rightarrow> real \<Rightarrow> real \<Rightarrow> real \<Rightarrow> real \<Rightarrow> real \<Rightarrow> real \<Rightarrow> real
     \<Rightarrow> SE2Transform list \<times> string \<times> real list" where
  "line_dubins sx sy st ex ey et c step_size =
     (if sy = ey \<and> st = 0 \<and> et = 0 \<and> ex - sx = step_size
      then ([\<lparr>p0 = sx, p1 = sy, theta = 0\<rparr>, \<lparr>p0 = ex, p1 = ey, theta = 0\<rparr>],
            ''S'', [0, step_size, 0])
      else ([\<lparr>p0 = sx, p1 = sy, theta = st\<rparr>], [], [0, 0, 0]))"

definition node_at :: "real \<Rightarrow> string \<Rightarrow> AnyNode" where
  "node_at x i =
     \<lparr>pose = \<lparr>p0 = x, p1 = 0, theta = 0\<rparr>, node_id = i, node_path = [], cost = 0,
      parent = None\<rparr>"

definition origin :: SE2Transform where
  "origin = \<lparr>p0 = 0, p1 = 0, theta = 0\<rparr>"

text \<open>
  No obstacle, the goal region \<open>5 \<le> x\<close>, resolution 1, two iterations; the \<open>k\<close>-th draw of
  the sampler is the pose at \<open>x = k + 1\<close>; a stored path stays valid.
\<close>

definition env0 :: env where
  "env0 =
     \<lparr>max_iter = 2, expand_iter = 2, expand_dis = 3, path_resolution = 1,
      search_until_max_iter = False, curvature = 1, init_cost = 0,
      dubins_path_planning = line_dubins, seed = 42,
      sample = (\<lambda>sd k. node_at (real k + 1) ''rnd''),
      collision = (\<lambda>n. False),
      is_fulfilled = (\<lambda>v. 5 \<le> vs_x v),
      find_best_path = (\<lambda>t n. \<lparr>poses = node_path n, path_length = cost n\<rparr>),
      remove_driven_nodes = (\<lambda>cp s. s),
      check_path_valid = (\<lambda>s. True)\<rparr>"

text \<open>The same world with every candidate in collision.\<close>

definition env_blocked :: env where
  "env_blocked = env0\<lparr>collision := (\<lambda>n. True)\<rparr>"

text \<open>The same world after an obstacle has moved onto the stored path.\<close>

definition env_moved :: env where
  "env_moved = env0\<lparr>check_path_valid := (\<lambda>s. False)\<rparr>"

text \<open>The same world with the goal region \<open>1 \<le> x\<close>.\<close>

definition env_near_goal :: env where
  "env_near_goal = env0\<lparr>is_fulfilled := (\<lambda>v. 1 \<le> vs_x v)\<rparr>"

definition n1 :: AnyNode where
  "n1 = \<lparr>pose = \<lparr>p0 = 1, p1 = 0, theta = 0\<rparr>, node_id = ''1'',
         node_path = [\<lparr>p0 = 0, p1 = 0, theta = 0\<rparr>, \<lparr>p0 = 1, p1 = 0, theta = 0\<rparr>],
         cost = 1, parent = Some ''0''\<rparr>"

definition n2 :: AnyNode where
  "n2 = \<lparr>pose = \<lparr>p0 = 2, p1 = 0, theta = 0\<rparr>, node_id = ''2'',
         node_path = [\<lparr>p0 = 1, p1 = 0, theta = 0\<rparr>, \<lparr>p0 = 2, p1 = 0, theta = 0\<rparr>],
         cost = 1, parent = Some ''1''\<rparr>"

definition pth0 :: Path where
  "pth0 = \<lparr>poses = [\<lparr>p0 = 1, p1 = 0, theta = 0\<rparr>, \<lparr>p0 = 2, p1 = 0, theta = 0\<rparr>],
           path_length = 1\<rparr>"

definition s0 :: planner where
  "s0 = \<lparr>p_tree = [(''0'', node_at 0 ''0'')], p_number_nodes = 0, p_path = None,
         p_draws = 0\<rparr>"

definition s0_drawn :: planner where
  "s0_drawn = \<lparr>p_tree = [(''0'', node_at 0 ''0'')], p_number_nodes = 0, p_path = None,
               p_draws = 1\<rparr>"

definition s1 :: planner where
  "s1 = \<lparr>p_tree = [(''0'', node_at 0 ''0''), (''1'', n1)], p_number_nodes = 1,
         p_path = None, p_draws = 1\<rparr>"

definition s2 :: planner where
  "s2 = \<lparr>p_tree = [(''0'', node_at 0 ''0''), (''1'', n1), (''2'', n2)], p_number_nodes = 2,
         p_path = None, p_draws = 2\<rparr>"

definition s3 :: planner where
  "s3 = \<lparr>p_tree = [(''0'', node_at 0 ''0''), (''1'', n1), (''2'', n2)], p_number_nodes = 2,
         p_path = Some pth0, p_draws = 2\<rparr>"


section \<open>The goal test and the rocket commands\<close>

text \<open>
  C9: \<open>reached_goal(node)\<close> holds exactly when the goal predicate \<open>is_fulfilled\<close> accepts
  the vehicle configuration with the node's position and heading and with zero
  velocity and steering.
\<close>

theorem reached_goal_iff:
  "reached_goal e node =
     is_fulfilled e \<lparr>vs_x = p0 (pose node), vs_y = p1 (pose node),
                     vs_theta = theta (pose node), vs_vx = 0, vs_delta = 0\<rparr>"
  by (simp add: reached_goal_def)

text \<open>
  C10: \<open>RocketCommands.from_array\<close> raises for every array, and on the array of any
  commands it raises the \<open>KeyError\<close> of the key \<open>"acc_left "\<close>, so the round trip through
  \<open>as_ndarray\<close> never succeeds.
\<close>

theorem from_array_always_raises:
  "(\<exists>er. from_array z = Inl er) \<and> from_array (as_ndarray c) = Inl (KeyError ''acc_left '')"
  by (auto simp: from_array_def idx_def get_n_commands_def as_ndarray_def nd_size_def
      split: list.splits)

section \<open>Evaluation in the concrete world\<close>

lemma str_digit: "n < 10 \<Longrightarrow> str n = [digit n]"
  by (subst str.simps) simp

lemmas eval_defs =
  planning_body_def get_random_node_def get_nearest_node_from_tree_def constrained_steer_def
  line_dubins_def node_at_def py_int_def py_index_def steer_node_def AnyNode_init_def
  insert_if_free_def check_collision_def search_best_goal_node_def reached_goal_def
  dist2_def set_child_def tree_insert_def str_digit digit_def

lemma body_blocked: "planning_body env_blocked s0 = Inr (s0_drawn, False, True, None)"
  by (simp add: eval_defs env_blocked_def env0_def s0_def s0_drawn_def)

lemma body_first: "planning_body env0 s0 = Inr (s1, True, True, None)"
  by (simp add: eval_defs env0_def s0_def s1_def n1_def)

lemma body_second: "planning_body env0 s1 = Inr (s2, True, True, None)"
  by (simp add: eval_defs env0_def s1_def s2_def n1_def n2_def)

lemma planning_env0: "planning env0 s0 = Inr (s2, None)"
proof -
  have m: "nat (max_iter env0) = Suc (Suc 0)"
    by (simp add: env0_def)
  have g: "search_best_goal_node env0 (p_tree s2) = None"
    by (simp add: eval_defs env0_def s2_def n1_def n2_def)
  show ?thesis
    by (simp add: planning_def m body_first body_second g)
qed


lemma replanning_kept: "replanning env0 origin s3 = Inr (s3, Some (poses pth0))"
  by (simp add: replanning_def env0_def s3_def)


section \<open>Steering: cost and truncation\<close>

lemma steer_node_cost:
  "steer_node e f r = Inr (Some n) \<Longrightarrow>
     cost n = init_cost e + sum_list (map abs (snd (snd r)))"
  by (auto simp: steer_node_def AnyNode_init_def split: prod.splits sum.splits)

text \<open>The cost of the parent does not enter the node that \<open>constrained_steer\<close> returns.\<close>

lemma constrained_steer_parent_cost:
  "constrained_steer e (Some (f\<lparr>cost := c\<rparr>)) to_node x =
   constrained_steer e (Some f) to_node x"
proof -
  have "steer_node e (f\<lparr>cost := c\<rparr>) = steer_node e f"
    by (intro ext) (simp add: steer_node_def split: prod.splits sum.splits)
  then show ?thesis
    by (simp add: constrained_steer_def Let_def split: option.splits prod.splits sum.splits)
qed

text \<open>
  C1: the invariant \<open>cost = parent.cost + arc_length(path)\<close> for the nodes that
  \<open>planning\<close> inserts. It fails in the concrete world: \<open>planning\<close> inserts node 1 under the
  root and node 2 under node 1, each over a segment of length 1, and node 2 gets the
  cost 1, not the cost 2 of its parent's cost plus its segment.
\<close>

theorem constrained_steer_cost_drops_parent:
  "planning env0 s0 = Inr (s2, None) \<and>
   map_of (p_tree s2) ''2'' = Some n2 \<and> parent n2 = Some ''1'' \<and>
   map_of (p_tree s2) ''1'' = Some n1 \<and>
   node_path n2 = fst (line_dubins 1 0 0 2 0 0 1 1) \<and>
   sum_list (map abs (snd (snd (line_dubins 1 0 0 2 0 0 1 1)))) = 1 \<and>
   cost n1 = 1 \<and> cost n2 = 1 \<and> cost n2 \<noteq> cost n1 + 1"
  by (simp add: planning_env0 s2_def n1_def n2_def line_dubins_def)


section \<open>The goal probe in an iteration\<close>

lemma planning_body_cases:
  assumes "planning_body e s = Inr (s', added, probed, r)"
  shows "\<exists>new_node s2.
           constrained_steer e
             (get_nearest_node_from_tree (p_tree s) (fst (get_random_node e s)))
             (fst (get_random_node e s)) (expand_dis e) = Inr new_node \<and>
           insert_if_free e (snd (get_random_node e s))
             (get_nearest_node_from_tree (p_tree s) (fst (get_random_node e s))) new_node
             = Inr (s2, added) \<and>
           p_tree s' = p_tree s2 \<and>
           probed = (\<not> search_until_max_iter e \<and> new_node \<noteq> None) \<and>
           (probed \<longrightarrow> r = map_option (\<lambda>n. poses (find_best_path e (p_tree s2) n))
                             (search_best_goal_node e (p_tree s2))) \<and>
           (\<not> probed \<longrightarrow> r = None)"
  using assms
  by (auto simp: planning_body_def get_random_node_def Let_def
      split: sum.splits prod.splits option.splits if_splits)

lemma insert_if_free_added:
  "insert_if_free e s nearest_node new_node = Inr (s', added) \<Longrightarrow>
     added = (\<exists>n. new_node = Some n \<and> \<not> collision e n)"
  by (auto simp: insert_if_free_def check_collision_def Let_def
      split: option.splits sum.splits if_splits)

text \<open>
  C3, as amended: with \<open>search_until_max_iter\<close> false, an iteration of \<open>planning\<close> runs the
  goal probe exactly when the steer produced a node, whether or not the node was
  added; an iteration that adds a node runs it; and the probe returns the path of the
  minimum-cost goal node of the tree, if there is one.
\<close>

theorem probe_iff_steered:
  assumes "\<not> search_until_max_iter e"
    and "planning_body e s = Inr (s', added, probed, r)"
  shows "(probed \<longleftrightarrow>
           (\<exists>n. constrained_steer e
                  (get_nearest_node_from_tree (p_tree s) (fst (get_random_node e s)))
                  (fst (get_random_node e s)) (expand_dis e) = Inr (Some n))) \<and>
         (added \<longrightarrow> probed) \<and>
         (probed \<longrightarrow> r = map_option (\<lambda>n. poses (find_best_path e (p_tree s') n))
                            (search_best_goal_node e (p_tree s')))"
proof -
  from planning_body_cases[OF assms(2)] obtain new_node s2 where
    c: "constrained_steer e
          (get_nearest_node_from_tree (p_tree s) (fst (get_random_node e s)))
          (fst (get_random_node e s)) (expand_dis e) = Inr new_node"
    and i: "insert_if_free e (snd (get_random_node e s))
          (get_nearest_node_from_tree (p_tree s) (fst (get_random_node e s))) new_node
          = Inr (s2, added)"
    and t: "p_tree s' = p_tree s2"
    and p: "probed = (\<not> search_until_max_iter e \<and> new_node \<noteq> None)"
    and r: "probed \<longrightarrow> r = map_option (\<lambda>n. poses (find_best_path e (p_tree s2) n))
                             (search_best_goal_node e (p_tree s2))"
    by blast
  from insert_if_free_added[OF i] have a: "added \<longrightarrow> new_node \<noteq> None"
    by auto
  from c p assms(1) a r t show ?thesis
    by auto
qed

theorem probe_iff_steered_witness:
  "\<not> search_until_max_iter env_blocked \<and>
   planning_body env_blocked s0 = Inr (s0_drawn, False, True, None) \<and>
   (\<exists>n. constrained_steer env_blocked
          (get_nearest_node_from_tree (p_tree s0) (fst (get_random_node env_blocked s0)))
          (fst (get_random_node env_blocked s0)) (expand_dis env_blocked) = Inr (Some n))"
proof -
  have h: "\<not> search_until_max_iter env_blocked"
    by (simp add: env_blocked_def env0_def)
  from probe_iff_steered[OF h body_blocked] h body_blocked show ?thesis
    by simp
qed

text \<open>
  The claim as stated fails: in the world where every candidate collides, the first
  iteration adds no node and runs the probe.
\<close>

theorem probe_without_insertion:
  "\<not> search_until_max_iter env_blocked \<and>
   planning_body env_blocked s0 = Inr (s0_drawn, False, True, None)"
  by (simp add: body_blocked) (simp add: env_blocked_def env0_def)

section \<open>Replanning\<close>

text \<open>
  C4: \<open>replanning(current_pose)\<close> first prunes the driven nodes. If the stored path is
  still valid it returns that path and changes nothing more. Otherwise it discards the
  whole tree and probes the goal once: a goal node found gives the returned and stored
  path, none found gives the stored path \<open>None\<close> and the result \<open>None\<close>.
\<close>

theorem replanning_protocol:
  "(check_path_valid e (remove_driven_nodes e current_pose s) \<and>
      p_path (remove_driven_nodes e current_pose s) = Some pa \<longrightarrow>
      replanning e current_pose s =
        Inr (remove_driven_nodes e current_pose s, Some (poses pa))) \<and>
   (\<not> check_path_valid e (remove_driven_nodes e current_pose s) \<longrightarrow>
      (\<exists>s' r. replanning e current_pose s = Inr (s', r) \<and> p_tree s' = [] \<and>
         (case search_best_goal_node e
                 (tree_remove (p_tree (remove_driven_nodes e current_pose s))) of
            Some last_node \<Rightarrow>
              r = Some (poses (find_best_path e [] last_node)) \<and>
              p_path s' = Some (find_best_path e [] last_node)
          | None \<Rightarrow> r = None \<and> p_path s' = None)))"
  by (simp add: replanning_def tree_remove_def Let_def split: option.splits)

theorem replanning_protocol_witness:
  "check_path_valid env0 (remove_driven_nodes env0 origin s3) \<and>
   p_path (remove_driven_nodes env0 origin s3) = Some pth0 \<and>
   replanning env0 origin s3 = Inr (s3, Some (poses pth0)) \<and>
   \<not> check_path_valid env_moved (remove_driven_nodes env_moved origin s3) \<and>
   (\<exists>s' r. replanning env_moved origin s3 = Inr (s', r) \<and> p_tree s' = [] \<and>
      r = None \<and> p_path s' = None)"
proof -
  have v: "check_path_valid env0 (remove_driven_nodes env0 origin s3) \<and>
           p_path (remove_driven_nodes env0 origin s3) = Some pth0"
    by (simp add: env0_def s3_def)
  have k: "remove_driven_nodes env0 origin s3 = s3"
    by (simp add: env0_def)
  have i: "\<not> check_path_valid env_moved (remove_driven_nodes env_moved origin s3)"
    by (simp add: env_moved_def env0_def)
  have g: "search_best_goal_node env_moved
             (tree_remove (p_tree (remove_driven_nodes env_moved origin s3))) = None"
    by (simp add: tree_remove_def search_best_goal_node_def)
  from replanning_protocol[of env0 origin s3 pth0] v k
  have a: "replanning env0 origin s3 = Inr (s3, Some (poses pth0))"
    by simp
  from replanning_protocol[of env_moved origin s3 pth0] i g
  have b: "\<exists>s' r. replanning env_moved origin s3 = Inr (s', r) \<and> p_tree s' = [] \<and>
             r = None \<and> p_path s' = None"
    by simp
  from v a i b show ?thesis
    by blast
qed

text \<open>
  C5: when \<open>replanning(current_pose)\<close> finds the stored path invalid, the goal probe runs
  on the tree that \<open>remove()\<close> has just cleared and finds nothing, so the result is always
  the no-path signal, with the stored path cleared.
\<close>

theorem replanning_invalid_no_path:
  assumes "\<not> check_path_valid e (remove_driven_nodes e current_pose s)"
  shows "search_best_goal_node e
           (tree_remove (p_tree (remove_driven_nodes e current_pose s))) = None \<and>
         replanning e current_pose s =
           Inr ((remove_driven_nodes e current_pose s)\<lparr>p_tree := [], p_path := None\<rparr>, None)"
  using assms by (simp add: replanning_def tree_remove_def search_best_goal_node_def)

theorem replanning_invalid_no_path_witness:
  "\<not> check_path_valid env_moved (remove_driven_nodes env_moved origin s3) \<and>
   replanning env_moved origin s3 = Inr (s3\<lparr>p_tree := [], p_path := None\<rparr>, None)"
proof -
  have i: "\<not> check_path_valid env_moved (remove_driven_nodes env_moved origin s3)"
    by (simp add: env_moved_def env0_def)
  have k: "remove_driven_nodes env_moved origin s3 = s3"
    by (simp add: env_moved_def env0_def)
  from replanning_invalid_no_path[OF i] i k show ?thesis
    by simp
qed

section \<open>Goal search\<close>

lemma find_skip: "\<forall>y\<in>set ys. \<not> P y \<Longrightarrow> find P (ys @ zs) = find P zs"
  by (induction ys) auto

lemma find_first_split:
  assumes "\<exists>x\<in>set xs. P x"
  shows "\<exists>pre n post. xs = pre @ n # post \<and> find P xs = Some n \<and> P n \<and>
           (\<forall>m\<in>set pre. \<not> P m)"
proof -
  from split_list_first_prop[OF assms] obtain ys x zs
    where s: "xs = ys @ x # zs" "P x" "\<forall>y\<in>set ys. \<not> P y"
    by blast
  then have "find P xs = Some x"
    by (simp add: find_skip)
  with s show ?thesis
    by blast
qed

lemma min_first:
  fixes f :: "'a \<Rightarrow> real"
  assumes ne: "g \<noteq> []"
  shows "\<exists>pre n post. g = pre @ n # post \<and>
           find (\<lambda>x. f x = min_list (map f g)) g = Some n \<and>
           (\<forall>m\<in>set pre. f n < f m) \<and> (\<forall>m\<in>set post. f n \<le> f m)"
proof -
  let ?mc = "min_list (map f g)"
  have mc: "?mc = Min (f ` set g)"
    using ne by (simp add: min_list_Min)
  have "set g \<noteq> {}"
    using ne by simp
  then have "?mc \<in> f ` set g"
    unfolding mc by (intro Min_in) simp_all
  then have "\<exists>x\<in>set g. f x = ?mc"
    by force
  from find_first_split[OF this] obtain pre n post where
    s: "g = pre @ n # post" "find (\<lambda>x. f x = ?mc) g = Some n" "f n = ?mc"
       "\<forall>m\<in>set pre. f m \<noteq> ?mc"
    by blast
  have le: "\<forall>m\<in>set g. ?mc \<le> f m"
    unfolding mc by simp
  have "\<forall>m\<in>set pre. m \<in> set g" "\<forall>m\<in>set post. m \<in> set g"
    by (subst s(1), simp)+
  then have "\<forall>m\<in>set pre. f n < f m" "\<forall>m\<in>set post. f n \<le> f m"
    using le s(3,4) by (force simp: less_le)+
  with s(1,2) show ?thesis
    by blast
qed

text \<open>
  C6: \<open>search_best_goal_node\<close> returns \<open>None\<close> when no tree node satisfies the goal.
  Otherwise it returns a goal node whose cost is minimal among the goal nodes, and the
  first such in the tree's iteration order: every goal node before it costs strictly
  more, every goal node after it costs at least as much.
\<close>

theorem search_best_goal_node_min_first:
  "(filter (reached_goal e) (map snd t) = [] \<longrightarrow> search_best_goal_node e t = None) \<and>
   (filter (reached_goal e) (map snd t) \<noteq> [] \<longrightarrow>
      (\<exists>pre n post. filter (reached_goal e) (map snd t) = pre @ n # post \<and>
         search_best_goal_node e t = Some n \<and>
         (\<forall>m\<in>set pre. cost n < cost m) \<and> (\<forall>m\<in>set post. cost n \<le> cost m)))"
proof (cases "filter (reached_goal e) (map snd t) = []")
  case True
  then show ?thesis
    by (simp add: search_best_goal_node_def)
next
  case False
  have "search_best_goal_node e t =
          find (\<lambda>x. cost x = min_list (map cost (filter (reached_goal e) (map snd t))))
            (filter (reached_goal e) (map snd t))"
    using False unfolding search_best_goal_node_def Let_def by (simp only: if_False)
  with min_first[OF False, of cost] False show ?thesis
    by simp
qed

theorem search_best_goal_node_min_first_witness:
  "filter (reached_goal env0) (map snd (p_tree s2)) = [] \<and>
   search_best_goal_node env0 (p_tree s2) = None \<and>
   filter (reached_goal env_near_goal) (map snd (p_tree s2)) = [n1, n2] \<and>
   cost n1 = cost n2 \<and>
   search_best_goal_node env_near_goal (p_tree s2) = Some n1"
proof -
  have a: "filter (reached_goal env0) (map snd (p_tree s2)) = []"
    by (simp add: reached_goal_def env0_def s2_def n1_def n2_def node_at_def)
  have b: "filter (reached_goal env_near_goal) (map snd (p_tree s2)) = [n1, n2]"
    by (simp add: reached_goal_def env_near_goal_def env0_def s2_def n1_def n2_def
        node_at_def)
  have c: "cost n1 = cost n2"
    by (simp add: n1_def n2_def)
  from search_best_goal_node_min_first[of env0 "p_tree s2"] a
  have d: "search_best_goal_node env0 (p_tree s2) = None"
    by simp
  from search_best_goal_node_min_first[of env_near_goal "p_tree s2"] b
  obtain pre n post where
    s: "[n1, n2] = pre @ n # post"
       "search_best_goal_node env_near_goal (p_tree s2) = Some n"
       "\<forall>m\<in>set pre. cost n < cost m"
    by auto
  have "pre = []"
  proof (cases pre)
    case Nil
    then show ?thesis .
  next
    case (Cons x xs)
    with s(1) have "x = n1" and "n \<in> {n1, n2}"
      by (auto simp: Cons_eq_append_conv)
    with s(3) Cons c show ?thesis
      by auto
  qed
  with s(1) have "n = n1"
    by simp
  with a b c d s(2) show ?thesis
    by simp
qed

section \<open>Normal return of planning and replanning\<close>

















end
